theory Spec2Isabelle
  imports Main "HOL-Library.Char_ord" "HOL-Library.List_Lexorder"
begin

section \<open>Python values used by the two scripts\<close>

text \<open>
  Both scripts work on text: lines of tab-separated files, split into fields, some of
  them read as integers. Python integers are unbounded, so they are \<^typ>\<open>int\<close>;
  \<open>//\<close> is floor division and \<open>%\<close> takes the sign of the divisor, as \<open>div\<close> and
  \<open>mod\<close> on \<^typ>\<open>int\<close> do. A string is a list of characters (ASCII text is assumed).
  Every exception a modelled statement can raise is a value of \<open>py_error\<close>; a
  computation that can raise returns \<open>py_error + 'a\<close>, with \<open>Inl\<close> for the exception.
\<close>

datatype py_error = IndexError | ValueError | ZeroDivisionError | TypeError | ReadError

definition py_bind :: "py_error + 'a \<Rightarrow> ('a \<Rightarrow> py_error + 'b) \<Rightarrow> py_error + 'b" where
  "py_bind m f = (case m of Inl e \<Rightarrow> Inl e | Inr v \<Rightarrow> f v)"

text \<open>\<open>xs[i]\<close> for a literal index \<open>i \<ge> 0\<close>: IndexError when out of range.\<close>

definition idx :: "'a list \<Rightarrow> nat \<Rightarrow> py_error + 'a" where
  "idx xs i = (if i < length xs then Inr (xs ! i) else Inl IndexError)"

text \<open>
  The white space of \<open>str.strip()\<close>, among ASCII characters: space, the controls
  0x09 to 0x0D and 0x1C to 0x1F.
\<close>

definition py_isspace :: "char \<Rightarrow> bool" where
  "py_isspace c = (c \<in> set [CHR '' '', CHR 0x09, CHR 0x0A, CHR 0x0B, CHR 0x0C, CHR 0x0D,
                             CHR 0x1C, CHR 0x1D, CHR 0x1E, CHR 0x1F])"

definition py_strip :: "string \<Rightarrow> string" where
  "py_strip s = rev (dropWhile py_isspace (rev (dropWhile py_isspace s)))"

text \<open>
  Splitting on a one-character separator. \<open>split_left sep n s\<close> cuts at the first
  \<open>n\<close> separators from the left; \<open>s.split(sep)\<close> cuts at every separator (there are at
  most \<open>length s\<close>), and \<open>s.rsplit(sep, maxsplit)\<close> cuts at the last \<open>maxsplit\<close>
  separators, which is the left split of the reversed string, reversed.
\<close>

fun split_left :: "char \<Rightarrow> nat \<Rightarrow> string \<Rightarrow> string list" where
  "split_left sep 0 s = [s]"
| "split_left sep (Suc n) s =
     (if sep \<in> set s
      then takeWhile (\<lambda>c. c \<noteq> sep) s # split_left sep n (tl (dropWhile (\<lambda>c. c \<noteq> sep) s))
      else [s])"

definition py_split :: "string \<Rightarrow> char \<Rightarrow> string list" where
  "py_split s sep = split_left sep (length s) s"

definition py_rsplit :: "string \<Rightarrow> char \<Rightarrow> nat \<Rightarrow> string list" where
  "py_rsplit s sep maxsplit = rev (map rev (split_left sep maxsplit (rev s)))"

text \<open>\<open>s.startswith(p)\<close> and \<open>p in s\<close> (substring test).\<close>

definition py_startswith :: "string \<Rightarrow> string \<Rightarrow> bool" where
  "py_startswith s p = (take (length p) s = p)"

fun py_in :: "string \<Rightarrow> string \<Rightarrow> bool" where
  "py_in p [] = (p = [])"
| "py_in p (c # cs) = (py_startswith (c # cs) p \<or> py_in p cs)"

text \<open>
  \<open>int(s)\<close> in base 10 skips white space at both ends (space and the controls 0x09
  to 0x0D only; unlike \<open>strip\<close>, not 0x1C to 0x1F), then takes one optional sign and
  decimal digits, where a single underscore may stand between two digits. Anything else
  raises ValueError, and so does a text of more than 4300 digits (the limit of the
  interpreter on the conversion; underscores and the sign are not counted).
\<close>

definition int_isspace :: "char \<Rightarrow> bool" where
  "int_isspace c = (c \<in> set [CHR '' '', CHR 0x09, CHR 0x0A, CHR 0x0B, CHR 0x0C, CHR 0x0D])"

definition max_str_digits :: nat where
  "max_str_digits = 4300"

definition is_digit :: "char \<Rightarrow> bool" where
  "is_digit c = (c \<in> set ''0123456789'')"

definition digit_val :: "char \<Rightarrow> int" where
  "digit_val c = int (of_char c) - 48"

fun digits_ok :: "bool \<Rightarrow> string \<Rightarrow> bool" where
  "digits_ok prev_digit [] = prev_digit"
| "digits_ok prev_digit (c # cs) =
     (if is_digit c then digits_ok True cs
      else if c = CHR ''_'' \<and> prev_digit then digits_ok False cs
      else False)"

definition digits_value :: "string \<Rightarrow> int" where
  "digits_value s = foldl (\<lambda>a c. 10 * a + digit_val c) 0 (filter is_digit s)"

definition py_int :: "string \<Rightarrow> py_error + int" where
  "py_int s =
     (let t = rev (dropWhile int_isspace (rev (dropWhile int_isspace s)));
          neg = (t \<noteq> [] \<and> hd t = CHR ''-'');
          d = (if t \<noteq> [] \<and> (hd t = CHR ''-'' \<or> hd t = CHR ''+'') then tl t else t)
      in if digits_ok False d \<and> length (filter is_digit d) \<le> max_str_digits
         then Inr (if neg then - digits_value d else digits_value d)
         else Inl ValueError)"

section \<open>verify\_matches.py\<close>

subsection \<open>parse\_region\<close>

text \<open>
  The dictionary \<open>parse_region\<close> returns has the four keys \<open>chrom\<close>, \<open>start\<close>,
  \<open>end\<close> and \<open>midpoint\<close>; it is a record (\<open>end\<close> is written \<open>end_pos\<close>). The entries
  are evaluated in the order written: \<open>parts[0]\<close>, \<open>int(parts[1])\<close>, \<open>int(parts[2])\<close>,
  and the midpoint from the same two integers.
\<close>

record region =
  chrom :: string
  start :: int
  end_pos :: int
  midpoint :: int

definition parse_region :: "string \<Rightarrow> py_error + region" where
  "parse_region region_str =
     (let parts = py_rsplit region_str CHR ''_'' 2 in
      py_bind (idx parts 0) (\<lambda>p0.
      py_bind (idx parts 1) (\<lambda>p1.
      py_bind (py_int p1) (\<lambda>s.
      py_bind (idx parts 2) (\<lambda>p2.
      py_bind (py_int p2) (\<lambda>e.
        Inr \<lparr>chrom = p0, start = s, end_pos = e, midpoint = (s + e) div 2\<rparr>))))))"

subsection \<open>get\_gene\_coords\<close>

text \<open>
  The annotation file is the list of its lines, in order. The loop stops at the first
  line that passes every test; the three results stay \<open>None\<close> together when no line
  does, so the result is an optional triple.
\<close>

fun get_gene_coords :: "string list \<Rightarrow> string \<Rightarrow> py_error + (int \<times> int \<times> string) option" where
  "get_gene_coords [] gene_id = Inr None"
| "get_gene_coords (line # rest) gene_id =
     (if \<not> py_in gene_id line \<or> py_startswith line ''#'' then get_gene_coords rest gene_id
      else let fields = py_split (py_strip line) CHR 0x09 in
        if length fields < 9 then get_gene_coords rest gene_id
        else if fields ! 2 = ''gene'' then
          py_bind (py_int (fields ! 3)) (\<lambda>gene_start.
          py_bind (py_int (fields ! 4)) (\<lambda>gene_end.
            Inr (Some (gene_start, gene_end, fields ! 6))))
        else get_gene_coords rest gene_id)"

subsection \<open>The two verifiers\<close>

text \<open>
  Both verifiers return a dictionary with the key \<open>valid\<close>; the directional one has four
  more keys, the overlap one has one more.
\<close>

datatype verdict_dict =
    Directional (valid: bool) (reported_distance: int) (calculated_distance: int)
                (distance_matches: bool) (within_threshold: bool)
  | Overlap (valid: bool) (overlaps_gene: bool)

definition default_config_distance :: int where
  "default_config_distance = 10000"

definition verify_upstream_downstream :: "region \<Rightarrow> int \<Rightarrow> int \<Rightarrow> int \<Rightarrow> int \<Rightarrow> verdict_dict" where
  "verify_upstream_downstream region gene_start gene_end reported config_distance =
     (let actual_distance =
            (if midpoint region < gene_start then gene_start - midpoint region
             else if midpoint region > gene_end then midpoint region - gene_end
             else 0);
          is_valid = (reported \<le> config_distance);
          matches = (\<bar>actual_distance - reported\<bar> \<le> 10)
      in Directional is_valid reported actual_distance matches is_valid)"

definition verify_overlap :: "region \<Rightarrow> int \<Rightarrow> int \<Rightarrow> verdict_dict" where
  "verify_overlap region gene_start gene_end =
     (let overlaps = (start region < gene_end \<and> end_pos region > gene_start)
      in Overlap overlaps overlaps)"

subsection \<open>main\<close>

text \<open>
  \<open>main\<close> reads the sample file (the header line is skipped, blank lines are dropped,
  every other line is stripped and split at tabs), verifies the first ten samples against
  the annotation file and prints a report. The printed text is modelled by its content:
  one \<open>report\<close> per sample, then the count of valid samples and the conclusion. An
  exception ends the run.
\<close>

datatype report =
    GeneNotFound (sample_no: nat) (region_of: string) (gene_of: string)
  | Sample (sample_no: nat) (region_of: string) (gene_of: string)
           (gene_start_of: int) (gene_end_of: int) (strand_of: string)
           (area_of: string) (distance_of: int) (result_of: verdict_dict) (verdict_of: string)

datatype conclusion = AllValid | AllInvalid | Mixed nat

text \<open>
  The body of the loop, for the sample \<open>row\<close> at position \<open>i\<close>, on the state of the
  loop: \<open>valid_count\<close> and the reports printed so far. \<open>continue\<close> after GENE NOT FOUND
  leaves \<open>valid_count\<close> as it is.
\<close>

definition verify_sample ::
  "string list \<Rightarrow> nat \<Rightarrow> string list \<Rightarrow> nat \<times> report list \<Rightarrow> py_error + (nat \<times> report list)" where
  "verify_sample gtf i row st =
     (let valid_count = fst st; out = snd st in
      py_bind (idx row 0) (\<lambda>region_str.
      py_bind (idx row 2) (\<lambda>gene_id.
      py_bind (idx row 5) (\<lambda>area.
      py_bind (idx row 6) (\<lambda>d.
      py_bind (if d \<noteq> [] then py_int d else Inr 0) (\<lambda>distance.
      py_bind (parse_region region_str) (\<lambda>region.
      py_bind (get_gene_coords gtf gene_id) (\<lambda>coords.
        case coords of
          None \<Rightarrow> Inr (valid_count, out @ [GeneNotFound (i + 1) region_str gene_id])
        | Some (gene_start, gene_end, strand) \<Rightarrow>
            let result =
                  (if area = ''UPSTREAM'' \<or> area = ''DOWNSTREAM''
                   then verify_upstream_downstream region gene_start gene_end distance
                          default_config_distance
                   else verify_overlap region gene_start gene_end);
                verdict = (if valid result then ''VALID'' else ''INVALID'')
            in Inr (if valid result then valid_count + 1 else valid_count,
                    out @ [Sample (i + 1) region_str gene_id gene_start gene_end strand
                                  area distance result verdict])))))))))"

fun verify_loop ::
  "string list \<Rightarrow> (nat \<times> string list) list \<Rightarrow> nat \<times> report list \<Rightarrow> py_error + (nat \<times> report list)" where
  "verify_loop gtf [] st = Inr st"
| "verify_loop gtf ((i, row) # rest) st = py_bind (verify_sample gtf i row st) (verify_loop gtf rest)"

definition main :: "string list \<Rightarrow> string list \<Rightarrow> py_error + (report list \<times> nat \<times> conclusion)" where
  "main gtf_lines sample_lines =
     (let samples = map (\<lambda>line. py_split (py_strip line) CHR 0x09)
                        (filter (\<lambda>line. py_strip line \<noteq> []) (drop 1 sample_lines))
      in py_bind (verify_loop gtf_lines (enumerate 0 (take 10 samples)) (0, []))
           (\<lambda>st. let valid_count = fst st in
              Inr (snd st, valid_count,
                   if valid_count = 10 then AllValid
                   else if valid_count = 0 then AllInvalid
                   else Mixed valid_count)))"

section \<open>compare\_outputs.py\<close>

subsection \<open>Data frames\<close>

text \<open>
  A data frame is the list of its rows, in order. A cell of a frame read by
  \<open>pd.read_csv\<close> is a text, a number (or another parsed value that is not text, such
  as a truth value), or the missing value NaN, which pandas puts for an empty cell and
  for the texts it reads as missing (NA, nan, null and others). The type \<open>'n\<close> of the
  numbers is a parameter: the script computes nothing with them, they are compared and
  ordered only. NaN is one value: the additions below store the one object
  \<open>numpy.nan\<close>, which a Python set and \<open>isin\<close> hold once.

  \<open>pd.read_csv\<close> itself is a parameter: the function from a path to the frame read from
  the file there, with the thirteen columns of \<open>COLUMNS\<close> and the cell types pandas
  infers, or to the exception it raises (\<open>ReadError\<close>: no such file, an empty file, a
  malformed line).
\<close>

datatype 'n cell = Str string | Num 'n | NaN

record 'n raw_row =
  Region :: "'n cell"
  Midpoint :: "'n cell"
  Gene :: "'n cell"
  Transcript :: "'n cell"
  ExonIntron :: "'n cell"
  Area :: "'n cell"
  Distance :: "'n cell"
  TSSDistance :: "'n cell"
  PercRegion :: "'n cell"
  PercArea :: "'n cell"
  Col11 :: "'n cell"
  Col12 :: "'n cell"
  Col13 :: "'n cell"

record 'n row = "'n raw_row" +
  key :: "'n cell"

definition with_key :: "'n raw_row \<Rightarrow> 'n cell \<Rightarrow> 'n row" where
  "with_key r k = raw_row.extend r (row.fields k)"

fun is_text :: "'n cell \<Rightarrow> bool" where
  "is_text (Str t) = True"
| "is_text c = False"

fun is_number :: "'n cell \<Rightarrow> bool" where
  "is_number (Num n) = True"
| "is_number c = False"

fun is_nan :: "'n cell \<Rightarrow> bool" where
  "is_nan NaN = True"
| "is_nan c = False"

subsection \<open>Adding columns and strings\<close>

text \<open>
  \<open>df["Region"] + "_"\<close>, a column of the frame plus a string. A column without a text
  in it has a numeric type (also when all its cells are missing) and cannot be added to
  a string, and neither can a number in a column of mixed cells: TypeError. In a column
  of texts the string is appended to every text and a missing cell stays missing; the
  result holds texts and missing values only (\<open>Some\<close> and \<open>None\<close>).
\<close>

fun text_of :: "'n cell \<Rightarrow> string option" where
  "text_of (Str t) = Some t"
| "text_of c = None"

definition series_add_str :: "'n cell list \<Rightarrow> string \<Rightarrow> py_error + string option list" where
  "series_add_str col s =
     (if list_ex is_number col \<or> (col \<noteq> [] \<and> list_all is_nan col) then Inl TypeError
      else Inr (map (\<lambda>c. map_option (\<lambda>t. t @ s) (text_of c)) col))"

text \<open>
  \<open>acc + df["Gene"]\<close>, such a result plus a column of the frame, row by row: text plus
  text is the concatenation, text plus number raises TypeError, and where either side
  is missing the result is missing (pandas adds the rows where both sides are present,
  and only them).
\<close>

fun cell_add :: "string option \<Rightarrow> 'n cell \<Rightarrow> string option" where
  "cell_add (Some x) (Str t) = Some (x @ t)"
| "cell_add a c = None"

definition add_series :: "string option list \<Rightarrow> 'n cell list \<Rightarrow> py_error + string option list" where
  "add_series acc col =
     (if list_ex (\<lambda>p. fst p \<noteq> None \<and> is_number (snd p)) (zip acc col) then Inl TypeError
      else Inr (map2 cell_add acc col))"

text \<open>\<open>acc + "_"\<close>, such a result plus a string; it does not raise.\<close>

definition add_str :: "string option list \<Rightarrow> string \<Rightarrow> string option list" where
  "add_str acc s = map (map_option (\<lambda>x. x @ s)) acc"

definition to_cell :: "string option \<Rightarrow> 'n cell" where
  "to_cell k = (case k of Some t \<Rightarrow> Str t | None \<Rightarrow> NaN)"

subsection \<open>load\_output\<close>

text \<open>
  \<open>df["Region"] + "_" + df["Gene"] + "_" + df["Transcript"] + "_" + df["Area"]\<close> is
  evaluated from the left; the result becomes the column \<open>_key\<close>, written \<open>key\<close>.
\<close>

definition load_output :: "(string \<Rightarrow> py_error + 'n raw_row list) \<Rightarrow> string \<Rightarrow> py_error + 'n row list" where
  "load_output read_csv path =
     py_bind (read_csv path) (\<lambda>df.
     py_bind (series_add_str (map Region df) ''_'') (\<lambda>k1.
     py_bind (add_series k1 (map Gene df)) (\<lambda>k2.
     py_bind (add_series (add_str k2 ''_'') (map Transcript df)) (\<lambda>k3.
     py_bind (add_series (add_str k3 ''_'') (map Area df)) (\<lambda>k4.
       Inr (map2 with_key df (map to_cell k4)))))))"

subsection \<open>The sample of analyze\_pair\<close>

text \<open>
  The size of the head taken from the group named \<open>name\<close>:
  \<open>max(1, sample_size // x.name.__hash__() % 5 + 1)\<close>. \<open>//\<close> and \<open>%\<close> associate to the
  left. The hash of a string differs from one interpreter run to the next, so the hash
  function is a parameter; a hash of 0 raises ZeroDivisionError.
\<close>

definition quota :: "('n cell \<Rightarrow> int) \<Rightarrow> nat \<Rightarrow> 'n cell \<Rightarrow> py_error + int" where
  "quota hash sample_size name =
     (if hash name = 0 then Inl ZeroDivisionError
      else Inr (max 1 (int sample_size div hash name mod 5 + 1)))"

fun map_raising :: "('a \<Rightarrow> py_error + 'b) \<Rightarrow> 'a list \<Rightarrow> py_error + 'b list" where
  "map_raising f [] = Inr []"
| "map_raising f (x # xs) =
     py_bind (f x) (\<lambda>y. py_bind (map_raising f xs) (\<lambda>ys. Inr (y # ys)))"

text \<open>
  The names of the groups of \<open>groupby("Area")\<close>, in the order pandas takes them: the
  distinct values of the column, sorted, numbers before texts. A missing value names no
  group.
\<close>

definition group_names :: "('n::linorder) cell list \<Rightarrow> 'n cell list" where
  "group_names col =
     map Num (sort (remdups [n. Num n \<leftarrow> col])) @ map Str (sort (remdups [t. Str t \<leftarrow> col]))"

text \<open>
  \<open>rows.groupby("Area", group_keys=False).apply(lambda x: x.head(...)).head(sample_size)\<close>.
  Each group has its rows in the order of the frame; the rows with a missing \<open>Area\<close>
  are in no group. With \<open>group_keys=False\<close> the heads are concatenated in the order of
  the groups, except that when every head is its whole group the result keeps the index
  of the frame, that is the grouped rows in their original order. The last \<open>head\<close>
  keeps the first \<open>sample_size\<close> rows.
\<close>

definition stratified_sample ::
  "(('n::linorder) cell \<Rightarrow> int) \<Rightarrow> nat \<Rightarrow> 'n row list \<Rightarrow> py_error + 'n row list" where
  "stratified_sample hash sample_size rows =
     (let names = group_names (map Area rows);
          groups = map (\<lambda>name. filter (\<lambda>r. Area r = name) rows) names
      in py_bind (map_raising (\<lambda>name.
                    py_bind (quota hash sample_size name) (\<lambda>q.
                      Inr (take (nat q) (filter (\<lambda>r. Area r = name) rows)))) names)
           (\<lambda>heads. Inr (take sample_size
                            (if heads = groups then filter (\<lambda>r. Area r \<noteq> NaN) rows
                             else concat heads))))"

subsection \<open>analyze\_pair\<close>

text \<open>
  The dictionary returned is a record; the sample written to the file is returned with
  it (\<open>None\<close> when \<open>sample_size\<close> is 0 and no file is written). The printed lines and
  the table of the most frequent genes only print, and are left out.
\<close>

record diff_result =
  label :: string
  rust_total :: nat
  python_total :: nat
  rust_only :: nat
  python_only :: nat
  common :: nat

definition analyze_pair ::
  "(('n::linorder) cell \<Rightarrow> int) \<Rightarrow> 'n row list \<Rightarrow> 'n row list \<Rightarrow> string
     \<Rightarrow> py_error + (diff_result \<times> 'n row list option)" where
  "analyze_pair hash df_rs df_py lbl =
     (let rs_keys = set (map key df_rs);
          py_keys = set (map key df_py);
          rs_only = rs_keys - py_keys;
          py_only = py_keys - rs_keys;
          common_keys = rs_keys \<inter> py_keys;
          rust_only_rows = filter (\<lambda>r. key r \<in> rs_only) df_rs;
          sample_size = min 20 (length rust_only_rows)
      in py_bind (if sample_size > 0
                  then py_bind (stratified_sample hash sample_size rust_only_rows)
                         (\<lambda>sampled. Inr (Some sampled))
                  else Inr None)
           (\<lambda>sampled.
              Inr (\<lparr>label = lbl, rust_total = length df_rs, python_total = length df_py,
                    rust_only = card rs_only, python_only = card py_only,
                    common = card common_keys\<rparr>, sampled)))"

section \<open>Notions used to state the properties\<close>

text \<open>
  A line of the annotation file is a gene record for \<open>gene_id\<close> when it contains
  \<open>gene_id\<close>, is not a comment (does not begin with \<open>#\<close>), has at least nine
  tab-separated columns, and its feature type (the third column) is \<open>gene\<close>.
\<close>

definition is_gene_record :: "string \<Rightarrow> string \<Rightarrow> bool" where
  "is_gene_record gene_id line =
     (py_in gene_id line \<and> \<not> py_startswith line ''#'' \<and>
      9 \<le> length (py_split (py_strip line) CHR 0x09) \<and>
      py_split (py_strip line) CHR 0x09 ! 2 = ''gene'')"

text \<open>
  \<open>with_strand s\<close> overwrites the strand printed in a report; \<open>span_only\<close> forgets the
  strand of a lookup. Two reports, or two lookups, that agree after it differ in the
  strand at most.
\<close>

fun with_strand :: "string \<Rightarrow> report \<Rightarrow> report" where
  "with_strand s (GeneNotFound n r g) = GeneNotFound n r g"
| "with_strand s (Sample n r g gs ge strand a d res v) = Sample n r g gs ge s a d res v"

definition span_only :: "py_error + (int \<times> int \<times> string) option \<Rightarrow> py_error + (int \<times> int) option" where
  "span_only res = map_sum id (map_option (\<lambda>(gs, ge, strand). (gs, ge))) res"

text \<open>The number of reports that carry the verdict \<open>v\<close> (VALID or INVALID).\<close>

fun count_verdicts :: "string \<Rightarrow> report list \<Rightarrow> nat" where
  "count_verdicts v [] = 0"
| "count_verdicts v (GeneNotFound n r g # out) = count_verdicts v out"
| "count_verdicts v (Sample n r g gs ge strand a d res w # out) =
     (if w = v then 1 else 0) + count_verdicts v out"

text \<open>
  The key of a record with the four given cells: the four texts joined by underscores
  when all four are texts, and the missing value otherwise.
\<close>

fun joined_key :: "'n cell \<Rightarrow> 'n cell \<Rightarrow> 'n cell \<Rightarrow> 'n cell \<Rightarrow> 'n cell" where
  "joined_key (Str a) (Str b) (Str c) (Str d) = Str (a @ ''_'' @ b @ ''_'' @ c @ ''_'' @ d)"
| "joined_key a b c d = NaN"

subsection \<open>Example inputs\<close>

text \<open>
  A line of a tab-separated file, as reading the file gives it: the fields joined by
  tabs, with the newline at its end.
\<close>

fun tsv :: "string list \<Rightarrow> string" where
  "tsv [] = []"
| "tsv [f] = f"
| "tsv (f # g # fs) = f @ CHR 0x09 # tsv (g # fs)"

definition tsv_line :: "string list \<Rightarrow> string" where
  "tsv_line cells = tsv cells @ [CHR 0x0A]"

text \<open>
  An annotation file with a comment, an exon and two gene lines for G1; the same gene on
  the other strand; and a sample file with a header and two samples.
\<close>

definition example_gtf :: "string list" where
  "example_gtf =
     [tsv_line [''#gene_id G1''],
      tsv_line [''chr1'', ''src'', ''exon'', ''900'', ''950'', ''.'', ''+'', ''.'', ''gene_id G1''],
      tsv_line [''chr1'', ''src'', ''gene'', ''1000'', ''2000'', ''.'', ''+'', ''.'', ''gene_id G1''],
      tsv_line [''chr1'', ''src'', ''gene'', ''5000'', ''6000'', ''.'', ''-'', ''.'', ''gene_id G1'']]"

definition example_gtf_minus :: "string list" where
  "example_gtf_minus =
     [tsv_line [''chr1'', ''src'', ''gene'', ''1000'', ''2000'', ''.'', ''-'', ''.'', ''gene_id G1'']]"

definition example_samples :: "string list" where
  "example_samples =
     [tsv_line [''Region'', ''Midpoint'', ''Gene'', ''Transcript'', ''ExonIntron'', ''Area'', ''Distance''],
      tsv_line [''chr1_400_600'', ''500'', ''G1'', ''T1'', ''1'', ''UPSTREAM'', ''500''],
      tsv_line [''chr1_1500_1600'', ''1550'', ''G1'', ''T1'', ''2'', ''INTRON'', ''0'']]"

text \<open>
  An annotation file that holds the gene G10 only, and a sample file whose two samples
  name the gene G9.
\<close>

definition example_gtf_other :: "string list" where
  "example_gtf_other =
     [tsv_line [''chr1'', ''src'', ''gene'', ''1000'', ''2000'', ''.'', ''+'', ''.'', ''gene_id G10'']]"

definition example_samples_absent :: "string list" where
  "example_samples_absent =
     [tsv_line [''Region'', ''Midpoint'', ''Gene'', ''Transcript'', ''ExonIntron'', ''Area'', ''Distance''],
      tsv_line [''chr1_400_600'', ''500'', ''G9'', ''T1'', ''1'', ''UPSTREAM'', ''500''],
      tsv_line [''chr1_1500_1600'', ''1550'', ''G9'', ''T1'', ''2'', ''INTRON'', ''0'']]"

text \<open>
  Matcher outputs, as \<open>pd.read_csv\<close> returns them. The file \<open>rust.txt\<close> has five
  rows in each of four areas, one UPSTREAM row, and one row that \<open>golden.txt\<close> has too
  (with another distance); \<open>golden.txt\<close> has one more row of its own. In \<open>gaps.txt\<close>
  the gene of the second row is missing; in \<open>numeric.txt\<close> the genes are numbers.
  \<open>example_hash\<close> is a hash function that is negative on four of the five area names.
\<close>

definition example_raw :: "string \<Rightarrow> string \<Rightarrow> int \<Rightarrow> int raw_row" where
  "example_raw r a d =
     \<lparr>Region = Str r, Midpoint = Num 150, Gene = Str ''G1'', Transcript = Str ''T1'',
      ExonIntron = Num 1, Area = Str a, Distance = Num d, TSSDistance = Num 0,
      PercRegion = Num 100, PercArea = Num 1, Col11 = NaN, Col12 = NaN, Col13 = NaN\<rparr>"

definition example_csv :: "string \<Rightarrow> py_error + int raw_row list" where
  "example_csv path =
     (if path = ''rust.txt'' then
        Inr (concat (map (\<lambda>a. map (\<lambda>c. example_raw (''chr'' @ [c] @ ''_100_200'') a 0) ''12345'')
                         [''DOWNSTREAM'', ''FIRST_EXON'', ''GENE_BODY'', ''INTRON''])
             @ [example_raw ''chr1_100_200'' ''UPSTREAM'' 500,
                example_raw ''chr9_100_200'' ''GENE_BODY'' 0])
      else if path = ''golden.txt'' then
        Inr [example_raw ''chr9_100_200'' ''GENE_BODY'' 7,
             example_raw ''chr8_100_200'' ''INTRON'' 0]
      else if path = ''gaps.txt'' then
        Inr [example_raw ''chr1_100_200'' ''INTRON'' 0,
             (example_raw ''chr2_100_200'' ''INTRON'' 0) \<lparr>Gene := NaN\<rparr>]
      else if path = ''numeric.txt'' then
        Inr [(example_raw ''chr1_100_200'' ''INTRON'' 0) \<lparr>Gene := Num 7157\<rparr>,
             (example_raw ''chr2_100_200'' ''INTRON'' 0) \<lparr>Gene := Num 672\<rparr>]
      else Inl ReadError)"

text \<open>The rows of a frame that was loaded, and no rows when loading raised.\<close>

fun rows_of :: "py_error + 'a list \<Rightarrow> 'a list" where
  "rows_of (Inr rows) = rows"
| "rows_of (Inl e) = []"

definition example_rust :: "int row list" where
  "example_rust = rows_of (load_output example_csv ''rust.txt'')"

definition example_golden :: "int row list" where
  "example_golden = rows_of (load_output example_csv ''golden.txt'')"

definition example_hash :: "int cell \<Rightarrow> int" where
  "example_hash name =
     (if name = Str ''UPSTREAM'' then 1229782938247303441 else - 6148914691236517205)"

section \<open>Properties\<close>

subsection \<open>Helper facts on the Python values\<close>

lemma py_bind_simps [simp]:
  "py_bind (Inl e) f = Inl e" "py_bind (Inr v) f = f v"
  by (simp_all add: py_bind_def)

lemma py_int_examples:
  "py_int ''100'' = Inr 100" "py_int '' -42'' = Inr (- 42)" "py_int ''1_000'' = Inr 1000"
  "py_int ''1__0'' = Inl ValueError" "py_int [] = Inl ValueError" "py_int ''+7'' = Inr 7"
  "py_int (CHR 0x1C # ''5'') = Inl ValueError" "py_strip (CHR 0x1C # ''5'') = ''5''"
  by code_simp+

lemma py_int_digit_limit:
  assumes "max_str_digits < length (filter is_digit s)"
  shows "py_int s = Inl ValueError"
proof -
  define t where "t = rev (dropWhile int_isspace (rev (dropWhile int_isspace s)))"
  define d where "d = (if t \<noteq> [] \<and> (hd t = CHR ''-'' \<or> hd t = CHR ''+'') then tl t else t)"
  have "length (filter is_digit d) \<le> max_str_digits \<Longrightarrow> False"
    if "digits_ok False d"
  proof -
    assume le: "length (filter is_digit d) \<le> max_str_digits"
    have sp: "\<And>c. int_isspace c \<Longrightarrow> \<not> is_digit c"
      by (auto simp: int_isspace_def is_digit_def)
    have f1: "filter is_digit (dropWhile int_isspace u) = filter is_digit u" for u
      by (induction u) (auto simp: sp)
    have "filter is_digit t = filter is_digit s"
      unfolding t_def by (metis f1 rev_filter rev_rev_ident)
    moreover have "filter is_digit d = filter is_digit t"
      unfolding d_def by (cases t) (auto simp: is_digit_def)
    ultimately show False using assms le by simp
  qed
  then show ?thesis
    unfolding py_int_def Let_def t_def [symmetric] d_def [symmetric] by auto
qed

lemma split_left_no_sep: "sep \<notin> set s \<Longrightarrow> split_left sep n s = [s]"
  by (cases n) simp_all

lemma split_left_cut:
  assumes "sep \<notin> set x"
  shows "split_left sep (Suc n) (x @ sep # rest) = x # split_left sep n rest"
proof -
  have tw: "takeWhile (\<lambda>c. c \<noteq> sep) (x @ sep # rest) = x"
    using assms by (induction x) auto
  have dw: "dropWhile (\<lambda>c. c \<noteq> sep) (x @ sep # rest) = sep # rest"
    using assms by (induction x) auto
  show ?thesis by (simp add: tw dw)
qed

lemma py_rsplit_last_two:
  assumes "sep \<notin> set a" "sep \<notin> set b"
  shows "py_rsplit (c @ sep # a @ sep # b) sep 2 = [c, a, b]"
proof -
  have r: "rev (c @ sep # a @ sep # b) = rev b @ sep # (rev a @ sep # rev c)"
    by simp
  have "split_left sep 2 (rev b @ sep # (rev a @ sep # rev c)) = [rev b, rev a, rev c]"
    using assms
    by (simp add: numeral_2_eq_2 split_left_cut del: split_left.simps(2))
  then show ?thesis
    unfolding py_rsplit_def r by simp
qed

subsection \<open>The directional verifier\<close>

text \<open>
  Claim C2. For every region and gene span, the directional verifier computes the
  distance from the midpoint of the region to the nearest boundary of the gene
  (\<open>gene_start - midpoint\<close> before the gene, \<open>midpoint - gene_end\<close> after it, 0 inside);
  \<open>valid\<close> holds exactly when the reported distance is at most the configured threshold,
  whose default is 10000; \<open>distance_matches\<close> holds exactly when computed and reported
  distance differ by at most 10. For midpoint 500, gene span 1000 to 2000 and reported
  distance 500 the computed distance is 500, and both flags are true.
\<close>

theorem verify_upstream_downstream_spec:
  "calculated_distance (verify_upstream_downstream region gene_start gene_end reported cfg) =
     (if midpoint region < gene_start then gene_start - midpoint region
      else if midpoint region > gene_end then midpoint region - gene_end
      else 0)
   \<and> valid (verify_upstream_downstream region gene_start gene_end reported cfg) = (reported \<le> cfg)
   \<and> distance_matches (verify_upstream_downstream region gene_start gene_end reported cfg) =
       (\<bar>calculated_distance (verify_upstream_downstream region gene_start gene_end reported cfg)
          - reported\<bar> \<le> 10)
   \<and> default_config_distance = 10000
   \<and> verify_upstream_downstream \<lparr>chrom = c, start = s, end_pos = e, midpoint = 500\<rparr>
         1000 2000 500 default_config_distance
       = Directional True 500 500 True True"
  by (simp add: verify_upstream_downstream_def default_config_distance_def Let_def)

subsection \<open>The overlap verifier\<close>

text \<open>
  Claim C5. The overlap verifier's \<open>valid\<close> holds exactly when the region starts before
  the end of the gene and ends after its start. The region 1500 to 1600 is valid against
  the gene span 1000 to 2000; the region 2100 to 2200 is not.
\<close>

theorem verify_overlap_spec:
  "valid (verify_overlap region gene_start gene_end) =
     (start region < gene_end \<and> end_pos region > gene_start)
   \<and> valid (verify_overlap \<lparr>chrom = c, start = 1500, end_pos = 1600, midpoint = m\<rparr> 1000 2000)
   \<and> \<not> valid (verify_overlap \<lparr>chrom = c, start = 2100, end_pos = 2200, midpoint = m\<rparr> 1000 2000)"
  by (simp add: verify_overlap_def Let_def)

subsection \<open>Parsing a region identifier\<close>

text \<open>
  Claim C6. A region identifier \<open>chrom_start_end\<close>, where the last two fields hold no
  underscore and \<open>int\<close> reads them as \<open>s\<close> and \<open>e\<close>, and where \<open>chrom\<close> is any
  string (underscores included), is parsed into that \<open>chrom\<close>, the integers \<open>s\<close> and
  \<open>e\<close>, and the midpoint \<open>(s + e) div 2\<close> (floor division).
\<close>

theorem parse_region_spec:
  assumes "CHR ''_'' \<notin> set a" and "CHR ''_'' \<notin> set b"
    and "py_int a = Inr s" and "py_int b = Inr e"
  shows "parse_region (c @ ''_'' @ a @ ''_'' @ b) =
           Inr \<lparr>chrom = c, start = s, end_pos = e, midpoint = (s + e) div 2\<rparr>"
proof -
  have "py_rsplit (c @ ''_'' @ a @ ''_'' @ b) CHR ''_'' 2 = [c, a, b]"
    using py_rsplit_last_two [OF assms(1,2), of c] by simp
  then show ?thesis
    by (simp add: parse_region_def idx_def assms(3,4))
qed

theorem parse_region_spec_witness:
  "CHR ''_'' \<notin> set ''100'' \<and> CHR ''_'' \<notin> set ''201'' \<and>
   py_int ''100'' = Inr 100 \<and> py_int ''201'' = Inr 201 \<and>
   parse_region ''chrUn_KI270_random_100_201'' =
     Inr \<lparr>chrom = ''chrUn_KI270_random'', start = 100, end_pos = 201, midpoint = 150\<rparr>"
proof -
  have a: "CHR ''_'' \<notin> set ''100''" and b: "CHR ''_'' \<notin> set ''201''" by simp_all
  have s: "py_int ''100'' = Inr 100" and e: "py_int ''201'' = Inr 201" by code_simp+
  from parse_region_spec [OF a b s e, of "''chrUn_KI270_random''"]
  show ?thesis using a b s e by simp
qed

subsection \<open>The annotation lookup\<close>

lemma get_gene_coords_skip:
  "\<not> is_gene_record gene_id l \<Longrightarrow> get_gene_coords (l # rest) gene_id = get_gene_coords rest gene_id"
  by (auto simp: is_gene_record_def Let_def)

lemma get_gene_coords_hit:
  "is_gene_record gene_id l \<Longrightarrow>
     get_gene_coords (l # rest) gene_id =
       py_bind (py_int (py_split (py_strip l) CHR 0x09 ! 3)) (\<lambda>gs.
       py_bind (py_int (py_split (py_strip l) CHR 0x09 ! 4)) (\<lambda>ge.
         Inr (Some (gs, ge, py_split (py_strip l) CHR 0x09 ! 6))))"
  by (auto simp: is_gene_record_def Let_def)

lemma get_gene_coords_hit_not_None:
  "is_gene_record gene_id l \<Longrightarrow> get_gene_coords (l # rest) gene_id \<noteq> Inr None"
  by (simp add: get_gene_coords_hit py_bind_def del: get_gene_coords.simps split: sum.splits)

lemma get_gene_coords_None_iff:
  "(get_gene_coords src gene_id = Inr None) = (\<forall>l \<in> set src. \<not> is_gene_record gene_id l)"
proof (induction src)
  case Nil
  show ?case by simp
next
  case (Cons l src)
  show ?case
  proof (cases "is_gene_record gene_id l")
    case True
    then show ?thesis using get_gene_coords_hit_not_None [OF True] by auto
  next
    case False
    then show ?thesis using Cons.IH by (simp add: get_gene_coords_skip del: get_gene_coords.simps)
  qed
qed

lemma get_gene_coords_skip_prefix:
  "\<forall>l \<in> set pre. \<not> is_gene_record gene_id l \<Longrightarrow>
     get_gene_coords (pre @ rest) gene_id = get_gene_coords rest gene_id"
  by (induction pre) (simp_all add: get_gene_coords_skip del: get_gene_coords.simps)

text \<open>
  Claim C7. For every annotation source and gene identifier, the lookup returns
  \<open>None\<close> (not found) exactly when the source has no gene record for the identifier:
  no line that is a record (not a comment, nine columns or more) of feature type
  \<open>gene\<close> and contains the identifier as a substring. Otherwise the start, end and
  strand are read from the first such record, whatever follows it.
\<close>

theorem get_gene_coords_first_match:
  "((get_gene_coords src gene_id = Inr None) = (\<forall>l \<in> set src. \<not> is_gene_record gene_id l))
   \<and> ((\<forall>l \<in> set pre. \<not> is_gene_record gene_id l) \<and> is_gene_record gene_id line
        \<and> py_int (py_split (py_strip line) CHR 0x09 ! 3) = Inr s
        \<and> py_int (py_split (py_strip line) CHR 0x09 ! 4) = Inr e
      \<longrightarrow> get_gene_coords (pre @ line # post) gene_id =
            Inr (Some (s, e, py_split (py_strip line) CHR 0x09 ! 6)))"
proof (intro conjI impI)
  show "(get_gene_coords src gene_id = Inr None) = (\<forall>l \<in> set src. \<not> is_gene_record gene_id l)"
    by (rule get_gene_coords_None_iff)
next
  assume h: "(\<forall>l \<in> set pre. \<not> is_gene_record gene_id l) \<and> is_gene_record gene_id line
        \<and> py_int (py_split (py_strip line) CHR 0x09 ! 3) = Inr s
        \<and> py_int (py_split (py_strip line) CHR 0x09 ! 4) = Inr e"
  then have "get_gene_coords (pre @ line # post) gene_id = get_gene_coords (line # post) gene_id"
    by (simp add: get_gene_coords_skip_prefix del: get_gene_coords.simps)
  also have "\<dots> = Inr (Some (s, e, py_split (py_strip line) CHR 0x09 ! 6))"
    using h by (simp add: get_gene_coords_hit del: get_gene_coords.simps)
  finally show "get_gene_coords (pre @ line # post) gene_id =
            Inr (Some (s, e, py_split (py_strip line) CHR 0x09 ! 6))" .
qed

theorem get_gene_coords_first_match_witness:
  "get_gene_coords example_gtf ''G9'' = Inr None
   \<and> get_gene_coords example_gtf ''G1'' = Inr (Some (1000, 2000, ''+''))"
proof -
  have none: "\<forall>l \<in> set example_gtf. \<not> is_gene_record ''G9'' l"
    by code_simp
  have pre: "\<forall>l \<in> set (take 2 example_gtf). \<not> is_gene_record ''G1'' l"
    by code_simp
  have hit: "is_gene_record ''G1'' (example_gtf ! 2)"
    by code_simp
  have s: "py_int (py_split (py_strip (example_gtf ! 2)) CHR 0x09 ! 3) = Inr 1000"
    and e: "py_int (py_split (py_strip (example_gtf ! 2)) CHR 0x09 ! 4) = Inr 2000"
    and st: "py_split (py_strip (example_gtf ! 2)) CHR 0x09 ! 6 = ''+''"
    by code_simp+
  have split: "example_gtf = take 2 example_gtf @ (example_gtf ! 2) # drop 3 example_gtf"
    by code_simp
  have a: "get_gene_coords example_gtf ''G9'' = Inr None"
    using get_gene_coords_first_match [of example_gtf "''G9''"] none by blast
  have "get_gene_coords (take 2 example_gtf @ (example_gtf ! 2) # drop 3 example_gtf) ''G1''
          = Inr (Some (1000, 2000, ''+''))"
    using get_gene_coords_first_match [of example_gtf "''G1''" "take 2 example_gtf" "example_gtf ! 2" 1000 2000 "drop 3 example_gtf"]
      pre hit s e st by simp
  with split a show ?thesis by simp
qed

subsection \<open>The verification loop\<close>

lemma count_verdicts_append:
  "count_verdicts v (xs @ ys) = count_verdicts v xs + count_verdicts v ys"
  by (induction v xs rule: count_verdicts.induct) simp_all

text \<open>
  Every sample the loop gets through adds one report, and \<open>valid_count\<close> is the
  number of VALID verdicts among the reports; the conclusion is chosen by comparing
  \<open>valid_count\<close> with 10 and with 0.
\<close>

lemma py_bind_Inr_iff: "(py_bind m f = Inr y) = (\<exists>v. m = Inr v \<and> f v = Inr y)"
  by (cases m) simp_all

lemma verify_sample_step:
  assumes "verify_sample gtf i row (vc, out) = Inr (vc', out')"
  shows "\<exists>rep. out' = out @ [rep] \<and> vc' = vc + count_verdicts ''VALID'' [rep]"
proof -
  from assms obtain region_str gene_id coords and judge :: "int \<Rightarrow> int \<Rightarrow> string \<Rightarrow> nat \<times> report list" where
    c: "(case coords of
          None \<Rightarrow> Inr (vc, out @ [GeneNotFound (i + 1) region_str gene_id])
        | Some (gene_start, gene_end, strand) \<Rightarrow> Inr (judge gene_start gene_end strand))
         = (Inr (vc', out') :: py_error + nat \<times> report list)"
    and j: "\<And>gs ge s. \<exists>rep. judge gs ge s = (vc + count_verdicts ''VALID'' [rep], out @ [rep])"
  proof -
    from assms have "\<exists>region_str gene_id area distance region coords.
       (case coords of
          None \<Rightarrow> Inr (vc, out @ [GeneNotFound (i + 1) region_str gene_id])
        | Some (gene_start, gene_end, strand) \<Rightarrow>
            Inr (let result =
                  (if area = ''UPSTREAM'' \<or> area = ''DOWNSTREAM''
                   then verify_upstream_downstream region gene_start gene_end distance
                          default_config_distance
                   else verify_overlap region gene_start gene_end);
                verdict = (if valid result then ''VALID'' else ''INVALID'')
            in (if valid result then vc + 1 else vc,
                    out @ [Sample (i + 1) region_str gene_id gene_start gene_end strand
                                  area distance result verdict]))) = (Inr (vc', out') :: py_error + nat \<times> report list)"
      unfolding verify_sample_def Let_def fst_conv snd_conv py_bind_Inr_iff by blast
    then obtain region_str gene_id area distance region coords where
      e: "(case coords of
          None \<Rightarrow> Inr (vc, out @ [GeneNotFound (i + 1) region_str gene_id])
        | Some (gene_start, gene_end, strand) \<Rightarrow>
            Inr (let result =
                  (if area = ''UPSTREAM'' \<or> area = ''DOWNSTREAM''
                   then verify_upstream_downstream region gene_start gene_end distance
                          default_config_distance
                   else verify_overlap region gene_start gene_end);
                verdict = (if valid result then ''VALID'' else ''INVALID'')
            in (if valid result then vc + 1 else vc,
                    out @ [Sample (i + 1) region_str gene_id gene_start gene_end strand
                                  area distance result verdict]))) = (Inr (vc', out') :: py_error + nat \<times> report list)"
      by blast
    show ?thesis
      by (rule that [OF e]) (simp add: Let_def)
  qed
  show ?thesis
  proof (cases coords)
    case None
    with c have "out' = out @ [GeneNotFound (i + 1) region_str gene_id]"
      and "vc' = vc + count_verdicts ''VALID'' [GeneNotFound (i + 1) region_str gene_id]"
      by simp_all
    then show ?thesis by blast
  next
    case (Some t)
    obtain gs ge s where t: "t = (gs, ge, s)" by (cases t) auto
    from j [of gs ge s] obtain rep where "judge gs ge s = (vc + count_verdicts ''VALID'' [rep], out @ [rep])"
      by blast
    with Some t c show ?thesis by auto
  qed
qed

lemma verify_loop_counts:
  "verify_loop gtf rows (vc, out) = Inr (vc', out') \<Longrightarrow>
     \<exists>reps. out' = out @ reps \<and> length reps = length rows
           \<and> vc' = vc + count_verdicts ''VALID'' reps"
proof (induction rows arbitrary: vc out)
  case Nil
  then show ?case by simp
next
  case (Cons p rows)
  obtain i row where p: "p = (i, row)" by (cases p)
  from Cons.prems p obtain st where st: "verify_sample gtf i row (vc, out) = Inr st"
    and rest: "verify_loop gtf rows st = Inr (vc', out')"
    by (auto simp: py_bind_Inr_iff)
  obtain vc1 out1 where st1: "st = (vc1, out1)" by (cases st)
  from verify_sample_step [OF st [unfolded st1]] obtain rep where
    r: "out1 = out @ [rep]" "vc1 = vc + count_verdicts ''VALID'' [rep]" by blast
  from Cons.IH [OF rest [unfolded st1]] obtain reps where
    rs: "out' = out1 @ reps" "length reps = length rows" "vc' = vc1 + count_verdicts ''VALID'' reps"
    by blast
  have "out' = out @ (rep # reps)" using r rs by simp
  moreover have "length (rep # reps) = length (p # rows)" using rs by simp
  moreover have "vc' = vc + count_verdicts ''VALID'' (rep # reps)"
    using r rs count_verdicts_append [of "''VALID''" "[rep]" reps] by simp
  ultimately show ?case by blast
qed

lemma main_valid_count:
  assumes "main gtf_lines sample_lines = Inr (reports, valid_count, concl)"
  shows "valid_count = count_verdicts ''VALID'' reports \<and> length reports \<le> 10
         \<and> concl = (if valid_count = 10 then AllValid
                     else if valid_count = 0 then AllInvalid else Mixed valid_count)"
proof -
  let ?samples = "map (\<lambda>line. py_split (py_strip line) CHR 0x09)
                        (filter (\<lambda>line. py_strip line \<noteq> []) (drop 1 sample_lines))"
  from assms obtain st where st: "verify_loop gtf_lines (enumerate 0 (take 10 ?samples)) (0, []) = Inr st"
    and res: "reports = snd st" "valid_count = fst st"
      "concl = (if fst st = 10 then AllValid else if fst st = 0 then AllInvalid else Mixed (fst st))"
    unfolding main_def Let_def py_bind_Inr_iff by auto
  obtain vc out where s: "st = (vc, out)" by (cases st)
  from verify_loop_counts [OF st [unfolded s]] obtain reps where
    "out = [] @ reps" "length reps = length (enumerate 0 (take 10 ?samples))"
    "vc = 0 + count_verdicts ''VALID'' reps" by blast
  with res s show ?thesis by simp
qed

text \<open>
  When the annotation source has no gene record that contains the gene of a readable
  sample, the loop prints GENE NOT FOUND for the sample, prints no verdict, and leaves
  \<open>valid_count\<close> as it was.
\<close>

lemma gene_not_found_outcome:
  assumes "6 < length row"
    and "(if row ! 6 \<noteq> [] then py_int (row ! 6) else Inr 0) = Inr d"
    and "parse_region (row ! 0) = Inr r"
    and "\<forall>l \<in> set gtf. \<not> is_gene_record (row ! 2) l"
  shows "verify_sample gtf i row (valid_count, out) =
           Inr (valid_count, out @ [GeneNotFound (i + 1) (row ! 0) (row ! 2)])"
proof -
  from assms(1) have len: "0 < length row" "2 < length row" "5 < length row" by auto
  from assms(4) have none: "get_gene_coords gtf (row ! 2) = Inr None"
    by (simp add: get_gene_coords_None_iff)
  show ?thesis
    unfolding verify_sample_def Let_def using assms(1-3) none len by (simp add: idx_def)
qed

text \<open>
  Claim C9. A gene that the annotation source does not have is not always reported as
  not found, and a sample that is reported as not found still counts against the
  conclusion. In the first run the annotation source holds the gene G10 only and the
  sample names G1: the lookup takes the line of G10, because it contains \<open>G1\<close>, and the
  sample gets the verdict VALID and is counted in \<open>valid_count\<close>. In the second run
  both samples name G9, which no line contains: both are reported as not found, and the
  conclusion is that all samples are invalid.
\<close>

theorem absent_gene_not_reported:
  "example_gtf_other =
     [tsv_line [''chr1'', ''src'', ''gene'', ''1000'', ''2000'', ''.'', ''+'', ''.'', ''gene_id G10'']]
   \<and> take 2 example_samples =
       [tsv_line [''Region'', ''Midpoint'', ''Gene'', ''Transcript'', ''ExonIntron'', ''Area'', ''Distance''],
        tsv_line [''chr1_400_600'', ''500'', ''G1'', ''T1'', ''1'', ''UPSTREAM'', ''500'']]
   \<and> main example_gtf_other (take 2 example_samples) =
       Inr ([Sample 1 ''chr1_400_600'' ''G1'' 1000 2000 ''+'' ''UPSTREAM'' 500
               (Directional True 500 500 True True) ''VALID''],
            1, Mixed 1)
   \<and> main example_gtf example_samples_absent =
       Inr ([GeneNotFound 1 ''chr1_400_600'' ''G9'', GeneNotFound 2 ''chr1_1500_1600'' ''G9''],
            0, AllInvalid)"
  by code_simp

lemma span_only_Inl: "span_only r = span_only (Inl e) \<Longrightarrow> r = Inl e"
  by (cases r) (simp_all add: span_only_def)

lemma span_only_None: "span_only r = span_only (Inr None) \<Longrightarrow> r = Inr None"
  by (cases r) (simp_all add: span_only_def)

lemma span_only_Some:
  assumes "span_only r = span_only (Inr (Some (gs, ge, s1)))"
  shows "\<exists>s2. r = Inr (Some (gs, ge, s2))"
proof (cases r)
  case (Inl e)
  with assms show ?thesis by (simp add: span_only_def)
next
  case (Inr b)
  show ?thesis
  proof (cases b)
    case None
    with Inr assms show ?thesis by (simp add: span_only_def)
  next
    case (Some t)
    obtain x y z where "t = (x, y, z)" by (cases t) auto
    with Some Inr assms show ?thesis by (simp add: span_only_def)
  qed
qed

text \<open>
  Claim C10. The strand a lookup returns is printed and never used to judge a sample:
  for two annotation sources whose lookups of the sample's gene agree but for the
  strand, the loop body raises the same exception or leaves the same \<open>valid_count\<close>
  and the same reports (with the same result dictionary and verdict), the printed
  strand apart. Neither verifier takes the strand as an argument.
\<close>

theorem strand_not_used:
  assumes "span_only (get_gene_coords gtf1 (row ! 2)) = span_only (get_gene_coords gtf2 (row ! 2))"
  shows "map_sum id (\<lambda>st'. (fst st', map (with_strand s) (snd st'))) (verify_sample gtf1 i row st) =
         map_sum id (\<lambda>st'. (fst st', map (with_strand s) (snd st'))) (verify_sample gtf2 i row st)"
proof (cases "6 < length row")
  case False
  then show ?thesis
    unfolding verify_sample_def Let_def by (auto simp: idx_def)
next
  case True
  show ?thesis
  proof (cases "get_gene_coords gtf1 (row ! 2)")
    case (Inl e1)
    with assms have "get_gene_coords gtf2 (row ! 2) = Inl e1"
      by (simp add: span_only_Inl)
    with Inl True show ?thesis
      unfolding verify_sample_def Let_def
      by (auto simp: idx_def py_bind_def split: sum.splits)
  next
    case (Inr c1)
    show ?thesis
    proof (cases c1)
      case None
      with Inr assms have "get_gene_coords gtf2 (row ! 2) = Inr None"
        by (simp add: span_only_None)
      with Inr None True show ?thesis
        unfolding verify_sample_def Let_def
        by (auto simp: idx_def py_bind_def split: sum.splits)
    next
      case (Some t1)
      obtain gs ge s1 where t1: "t1 = (gs, ge, s1)" by (cases t1) auto
      from Inr Some t1 assms obtain s2 where "get_gene_coords gtf2 (row ! 2) = Inr (Some (gs, ge, s2))"
        using span_only_Some [of "get_gene_coords gtf2 (row ! 2)" gs ge s1] by auto
      with Inr Some t1 True show ?thesis
        unfolding verify_sample_def Let_def
        by (auto simp: idx_def py_bind_def split: sum.splits)
    qed
  qed
qed

theorem strand_not_used_witness:
  "span_only (get_gene_coords example_gtf ''G1'') = span_only (get_gene_coords example_gtf_minus ''G1'')
   \<and> map_sum id (\<lambda>st'. (fst st', map (with_strand []) (snd st')))
        (verify_sample example_gtf 0 [''chr1_400_600'', ''500'', ''G1'', ''T1'', ''1'', ''UPSTREAM'', ''500''] (0, []))
     = map_sum id (\<lambda>st'. (fst st', map (with_strand []) (snd st')))
        (verify_sample example_gtf_minus 0 [''chr1_400_600'', ''500'', ''G1'', ''T1'', ''1'', ''UPSTREAM'', ''500''] (0, []))
   \<and> verify_sample example_gtf 0 [''chr1_400_600'', ''500'', ''G1'', ''T1'', ''1'', ''UPSTREAM'', ''500''] (0, [])
     \<noteq> verify_sample example_gtf_minus 0 [''chr1_400_600'', ''500'', ''G1'', ''T1'', ''1'', ''UPSTREAM'', ''500''] (0, [])"
proof -
  let ?row = "[''chr1_400_600'', ''500'', ''G1'', ''T1'', ''1'', ''UPSTREAM'', ''500'']"
  have h: "span_only (get_gene_coords example_gtf (?row ! 2)) =
           span_only (get_gene_coords example_gtf_minus (?row ! 2))"
    by code_simp
  have d: "verify_sample example_gtf 0 ?row (0, []) \<noteq> verify_sample example_gtf_minus 0 ?row (0, [])"
    by code_simp
  from strand_not_used [OF h, of "[]" 0 "(0, [])"] h d show ?thesis by simp
qed

text \<open>
  Claim C8. The conclusion \<open>main\<close> prints compares \<open>valid_count\<close> with the
  constant 10, not with the number of samples it verified. On the example, both samples
  of the file are verified and both are valid, and the conclusion is the mixed one; on
  a sample file with the header alone, the conclusion is that all samples are invalid.
\<close>

theorem main_all_valid_reported_mixed:
  "main example_gtf example_samples =
     Inr ([Sample 1 ''chr1_400_600'' ''G1'' 1000 2000 ''+'' ''UPSTREAM'' 500
             (Directional True 500 500 True True) ''VALID'',
           Sample 2 ''chr1_1500_1600'' ''G1'' 1000 2000 ''+'' ''INTRON'' 0
             (Overlap True True) ''VALID''],
          2, Mixed 2)
   \<and> main example_gtf (take 1 example_samples) = Inr ([], 0, AllInvalid)"
  by code_simp

subsection \<open>The match key\<close>

lemma with_key_simps [simp]:
  "key (with_key r k) = k"
  "Region (with_key r k) = Region r"
  "Gene (with_key r k) = Gene r"
  "Transcript (with_key r k) = Transcript r"
  "Area (with_key r k) = Area r"
  by (simp_all add: with_key_def raw_row.defs row.defs)

lemma map2_map_right: "map2 f xs (map g xs) = map (\<lambda>x. f x (g x)) xs"
  by (induction xs) simp_all

lemma series_add_str_Inr:
  "series_add_str col s = Inr k \<Longrightarrow> k = map (\<lambda>c. map_option (\<lambda>t. t @ s) (text_of c)) col"
  by (simp add: series_add_str_def split: if_splits)

lemma add_series_Inr:
  "add_series acc col = Inr k \<Longrightarrow> k = map2 cell_add acc col"
  by (simp add: add_series_def split: if_splits)

lemma key_cell_cases:
  "to_cell (cell_add (map_option (\<lambda>x. x @ ''_'')
             (cell_add (map_option (\<lambda>x. x @ ''_'')
               (cell_add (map_option (\<lambda>t. t @ ''_'') (text_of a)) b)) c)) d)
   = joined_key a b c d"
  by (cases a; cases b; cases c; cases d) (simp_all add: to_cell_def)

lemma load_output_rows:
  assumes "load_output read_csv path = Inr rows"
  shows "\<exists>df. read_csv path = Inr df \<and>
           rows = map (\<lambda>r. with_key r (joined_key (Region r) (Gene r) (Transcript r) (Area r))) df"
proof -
  from assms obtain df k1 k2 k3 k4 where df: "read_csv path = Inr df"
    and k1: "series_add_str (map Region df) ''_'' = Inr k1"
    and k2: "add_series k1 (map Gene df) = Inr k2"
    and k3: "add_series (add_str k2 ''_'') (map Transcript df) = Inr k3"
    and k4: "add_series (add_str k3 ''_'') (map Area df) = Inr k4"
    and rows: "rows = map2 with_key df (map to_cell k4)"
    unfolding load_output_def py_bind_Inr_iff by auto
  have e1: "k1 = map (\<lambda>r. map_option (\<lambda>t. t @ ''_'') (text_of (Region r))) df"
    using series_add_str_Inr [OF k1] by (simp add: comp_def)
  have e2: "k2 = map (\<lambda>r. cell_add (map_option (\<lambda>t. t @ ''_'') (text_of (Region r))) (Gene r)) df"
    using add_series_Inr [OF k2] unfolding e1 by (simp only: map2_map_map)
  have e3: "k3 = map (\<lambda>r. cell_add (map_option (\<lambda>x. x @ ''_'')
             (cell_add (map_option (\<lambda>t. t @ ''_'') (text_of (Region r))) (Gene r))) (Transcript r)) df"
    using add_series_Inr [OF k3] unfolding e2 add_str_def map_map comp_def by (simp only: map2_map_map)
  have e4: "k4 = map (\<lambda>r. cell_add (map_option (\<lambda>x. x @ ''_'')
             (cell_add (map_option (\<lambda>x. x @ ''_'')
               (cell_add (map_option (\<lambda>t. t @ ''_'') (text_of (Region r))) (Gene r))) (Transcript r)))
             (Area r)) df"
    using add_series_Inr [OF k4] unfolding e3 add_str_def map_map comp_def by (simp only: map2_map_map)
  have "map to_cell k4 = map (\<lambda>r. joined_key (Region r) (Gene r) (Transcript r) (Area r)) df"
    unfolding e4 map_map comp_def key_cell_cases ..
  with rows df show ?thesis
    by (simp add: map2_map_right)
qed

lemma is_text_not: "is_text c \<Longrightarrow> \<not> is_number c \<and> \<not> is_nan c"
  by (cases c) simp_all

lemma load_output_text_returns:
  fixes df :: "'n raw_row list"
  assumes "read_csv path = Inr df"
    and "\<forall>r \<in> set df. is_text (Region r) \<and> is_text (Gene r) \<and> is_text (Transcript r) \<and> is_text (Area r)"
  shows "\<exists>rows. load_output read_csv path = Inr rows \<and> length rows = length df"
proof -
  note t = is_text_not
  have n1: "\<not> list_ex is_number (map Region df)"
    using assms(2) t by (auto simp: list_ex_iff)
  have n1': "\<not> (map Region df \<noteq> [] \<and> list_all is_nan (map Region df))"
  proof (cases df)
    case Nil
    then show ?thesis by simp
  next
    case (Cons r rest)
    with assms(2) have "is_text (Region r)" by simp
    with t have "\<not> is_nan (Region r)" by blast
    with Cons show ?thesis by simp
  qed
  have num: "\<not> list_ex (\<lambda>p. fst p \<noteq> None \<and> is_number (snd p)) (zip acc (map f df))"
    if h: "\<forall>r \<in> set df. is_text (f r)"
    for acc :: "string option list" and f :: "'n raw_row \<Rightarrow> 'n cell"
  proof
    assume "list_ex (\<lambda>p. fst p \<noteq> None \<and> is_number (snd p)) (zip acc (map f df))"
    then obtain a c where "(a, c) \<in> set (zip acc (map f df))" and n: "is_number c"
      by (auto simp: list_ex_iff)
    then have "c \<in> set (map f df)" by (meson set_zip_rightD)
    then obtain r where "r \<in> set df" "c = f r" by auto
    with h have "is_text c" by simp
    with n show False using is_text_not by blast
  qed
  from n1 n1' obtain k1 where k1: "series_add_str (map Region df) ''_'' = Inr k1" "length k1 = length df"
    by (auto simp: series_add_str_def)
  have s: "\<exists>k. add_series acc (map f df) = Inr k \<and> length k = length df"
    if "\<forall>r \<in> set df. is_text (f r)" and "length acc = length df"
    for acc :: "string option list" and f :: "'n raw_row \<Rightarrow> 'n cell"
    using num [OF that(1), of acc] that(2) by (simp add: add_series_def)
  from s [of Gene k1] k1 assms(2) obtain k2 where
    k2: "add_series k1 (map Gene df) = Inr k2" "length k2 = length df"
    by auto
  from s [of Transcript "add_str k2 ''_''"] k2 assms(2) obtain k3 where
    k3: "add_series (add_str k2 ''_'') (map Transcript df) = Inr k3" "length k3 = length df"
    by (auto simp: add_str_def)
  from s [of Area "add_str k3 ''_''"] k3 assms(2) obtain k4 where
    k4: "add_series (add_str k3 ''_'') (map Area df) = Inr k4" "length k4 = length df"
    by (auto simp: add_str_def)
  show ?thesis
    unfolding load_output_def using assms(1) k1 k2 k3 k4 by simp
qed

text \<open>
  Claim C1, as the code has it. When \<open>load_output\<close> returns, the key of every record
  is its region, gene, transcript and \<open>Area\<close> joined by underscores, in this order, if
  these four cells are texts, and the missing value NaN if one of them is missing; so
  two loaded records that agree on these four columns have the same key. It does
  return, with one record for each row read, when the four columns hold text in every
  row.
\<close>

theorem load_output_key:
  "(load_output read_csv path = Inr rows \<longrightarrow>
      (\<forall>r \<in> set rows. key r = joined_key (Region r) (Gene r) (Transcript r) (Area r)))
   \<and> (load_output read_csv1 path1 = Inr rows1 \<and> load_output read_csv2 path2 = Inr rows2 \<longrightarrow>
        (\<forall>r1 \<in> set rows1. \<forall>r2 \<in> set rows2.
           Region r1 = Region r2 \<and> Gene r1 = Gene r2 \<and> Transcript r1 = Transcript r2
           \<and> Area r1 = Area r2 \<longrightarrow> key r1 = key r2))
   \<and> (read_csv path = Inr df
        \<and> (\<forall>r \<in> set df. is_text (Region r) \<and> is_text (Gene r) \<and> is_text (Transcript r)
                           \<and> is_text (Area r))
      \<longrightarrow> (\<exists>loaded. load_output read_csv path = Inr loaded \<and> length loaded = length df))"
proof -
  have a: "key r = joined_key (Region r) (Gene r) (Transcript r) (Area r)"
    if "load_output rc p = Inr rs" and "r \<in> set rs"
    for rc :: "string \<Rightarrow> py_error + 'n raw_row list" and p rs and r :: "'n row"
  proof -
    from load_output_rows [OF that(1)] obtain df where
      "rs = map (\<lambda>r. with_key r (joined_key (Region r) (Gene r) (Transcript r) (Area r))) df"
      by blast
    with that(2) obtain r0 where
      "r = with_key r0 (joined_key (Region r0) (Gene r0) (Transcript r0) (Area r0))"
      by auto
    then show ?thesis by simp
  qed
  have b: "key r1 = key r2"
    if "load_output rc1 p1 = Inr rs1" "load_output rc2 p2 = Inr rs2" "r1 \<in> set rs1" "r2 \<in> set rs2"
      and "Region r1 = Region r2 \<and> Gene r1 = Gene r2 \<and> Transcript r1 = Transcript r2 \<and> Area r1 = Area r2"
    for rc1 rc2 :: "string \<Rightarrow> py_error + 'n raw_row list" and p1 p2 rs1 rs2 and r1 r2 :: "'n row"
    using a [OF that(1,3)] a [OF that(2,4)] that(5) by simp
  from a b load_output_text_returns [of read_csv path df] show ?thesis
    by blast
qed

theorem load_output_key_witness:
  "load_output example_csv ''rust.txt'' = Inr example_rust
   \<and> load_output example_csv ''golden.txt'' = Inr example_golden
   \<and> length example_rust = 22
   \<and> key (hd example_rust) = Str ''chr1_100_200_G1_T1_DOWNSTREAM''
   \<and> key (last example_rust) = key (hd example_golden)
   \<and> Distance (last example_rust) \<noteq> Distance (hd example_golden)"
proof -
  have l1: "load_output example_csv ''rust.txt'' = Inr example_rust"
    and l2: "load_output example_csv ''golden.txt'' = Inr example_golden"
    by code_simp+
  have m1: "hd example_rust \<in> set example_rust" and m2: "last example_rust \<in> set example_rust"
    and m3: "hd example_golden \<in> set example_golden"
    by code_simp+
  have f: "joined_key (Region (hd example_rust)) (Gene (hd example_rust))
             (Transcript (hd example_rust)) (Area (hd example_rust))
           = Str ''chr1_100_200_G1_T1_DOWNSTREAM''"
    by code_simp
  have agree: "Region (last example_rust) = Region (hd example_golden)
               \<and> Gene (last example_rust) = Gene (hd example_golden)
               \<and> Transcript (last example_rust) = Transcript (hd example_golden)
               \<and> Area (last example_rust) = Area (hd example_golden)"
    by code_simp
  have differ: "Distance (last example_rust) \<noteq> Distance (hd example_golden)"
    by code_simp
  let ?df = "rows_of (example_csv ''rust.txt'')"
  have df: "example_csv ''rust.txt'' = Inr ?df" "length ?df = 22"
    "\<forall>r \<in> set ?df. is_text (Region r) \<and> is_text (Gene r) \<and> is_text (Transcript r) \<and> is_text (Area r)"
    by code_simp+
  note t = load_output_key [of example_csv "''rust.txt''" example_rust
             example_csv "''rust.txt''" example_rust example_csv "''golden.txt''" example_golden ?df]
  from t l1 m1 f have a: "key (hd example_rust) = Str ''chr1_100_200_G1_T1_DOWNSTREAM''" by metis
  from t l1 l2 m2 m3 agree have b: "key (last example_rust) = key (hd example_golden)" by blast
  from t df l1 have c: "length example_rust = 22" by auto
  from l1 l2 a b c differ show ?thesis by blast
qed

text \<open>
  A missing gene gives a missing key, and a column of numeric genes makes the
  concatenation raise TypeError; an exception of \<open>pd.read_csv\<close> is passed on.
\<close>

lemma load_output_examples:
  "map_sum id (map key) (load_output example_csv ''gaps.txt'') =
     Inr [Str ''chr1_100_200_G1_T1_INTRON'', NaN]"
  "load_output example_csv ''numeric.txt'' = Inl TypeError"
  "load_output example_csv ''nofile.txt'' = Inl ReadError"
  by code_simp+

text \<open>
  Claim C1 as stated fails: the key is not the plain concatenation of the four fields.
  For the first row of \<open>rust.txt\<close> the key is \<open>chr1_100_200_G1_T1_DOWNSTREAM\<close>, the
  concatenation is \<open>chr1_100_200G1T1DOWNSTREAM\<close>. And the fourth field is the area, not
  a size: the first and the sixth row differ in the \<open>Area\<close> column alone, and their
  keys differ.
\<close>

theorem load_output_key_counterexample:
  "load_output example_csv ''rust.txt'' = Inr example_rust
   \<and> Region (hd example_rust) = Str ''chr1_100_200'' \<and> Gene (hd example_rust) = Str ''G1''
   \<and> Transcript (hd example_rust) = Str ''T1'' \<and> Area (hd example_rust) = Str ''DOWNSTREAM''
   \<and> key (hd example_rust) = Str ''chr1_100_200_G1_T1_DOWNSTREAM''
   \<and> key (hd example_rust) \<noteq> Str (''chr1_100_200'' @ ''G1'' @ ''T1'' @ ''DOWNSTREAM'')
   \<and> key (example_rust ! 0) \<noteq> key (example_rust ! 5)
   \<and> (example_rust ! 0) \<lparr>Area := NaN, key := NaN\<rparr> = (example_rust ! 5) \<lparr>Area := NaN, key := NaN\<rparr>"
  by code_simp

subsection \<open>The counts of analyze\_pair\<close>

lemma map_raising_total:
  "\<forall>x \<in> set xs. \<exists>y. f x = Inr y \<Longrightarrow> \<exists>ys. map_raising f xs = Inr ys"
  by (induction xs) auto

lemma set_group_names: "set (group_names col) \<subseteq> set col"
  by (auto simp: group_names_def split: cell.splits)

lemma stratified_sample_total:
  assumes "\<forall>r \<in> set rows. hash (Area r) \<noteq> 0"
  shows "\<exists>sampled. stratified_sample hash n rows = Inr sampled"
proof -
  define names where "names = group_names (map Area rows)"
  define f where "f = (\<lambda>name. py_bind (quota hash n name) (\<lambda>q.
                      Inr (take (nat q) (filter (\<lambda>r. Area r = name) rows))))"
  have "\<forall>name \<in> set names. \<exists>y. f name = Inr y"
  proof
    fix name assume "name \<in> set names"
    then have "name \<in> Area ` set rows" using set_group_names [of "map Area rows"]
      by (auto simp: names_def)
    then have "hash name \<noteq> 0" using assms by blast
    then show "\<exists>y. f name = Inr y" by (simp add: f_def quota_def)
  qed
  then obtain heads where h: "map_raising f names = Inr heads"
    using map_raising_total by blast
  have "stratified_sample hash n rows =
          py_bind (map_raising f names)
            (\<lambda>heads. Inr (take n (if heads = map (\<lambda>name. filter (\<lambda>r. Area r = name) rows) names
                                   then filter (\<lambda>r. Area r \<noteq> NaN) rows else concat heads)))"
    unfolding stratified_sample_def Let_def names_def f_def ..
  then show ?thesis by (simp only: h py_bind_simps) blast
qed

lemma stratified_sample_bound:
  "stratified_sample hash n rows = Inr sampled \<Longrightarrow> length sampled \<le> n"
  by (auto simp: stratified_sample_def Let_def py_bind_def split: sum.splits)

lemma key_counts:
  assumes "distinct (map key a)"
  shows "card (set (map key a) - set (map key b)) + card (set (map key a) \<inter> set (map key b)) = length a"
proof -
  let ?A = "set (map key a)" and ?B = "set (map key b)"
  have "card (?A - ?B) + card (?A \<inter> ?B) = card ((?A - ?B) \<union> (?A \<inter> ?B))"
    by (rule card_Un_disjoint [symmetric]) auto
  also have "(?A - ?B) \<union> (?A \<inter> ?B) = ?A" by blast
  also have "card ?A = length a"
    using assms distinct_card [of "map key a"] by simp
  finally show ?thesis .
qed

lemma analyze_pair_returns:
  assumes "\<forall>r \<in> set df_rs. hash (Area r) \<noteq> 0"
  shows "\<exists>sampled. analyze_pair hash df_rs df_py lbl =
           Inr (\<lparr>label = lbl, rust_total = length df_rs, python_total = length df_py,
                 rust_only = card (set (map key df_rs) - set (map key df_py)),
                 python_only = card (set (map key df_py) - set (map key df_rs)),
                 common = card (set (map key df_rs) \<inter> set (map key df_py))\<rparr>, sampled)"
proof -
  let ?rows = "filter (\<lambda>r. key r \<in> set (map key df_rs) - set (map key df_py)) df_rs"
  have "\<forall>r \<in> set ?rows. hash (Area r) \<noteq> 0" using assms by simp
  then obtain s where s: "stratified_sample hash (min 20 (length ?rows)) ?rows = Inr s"
    using stratified_sample_total by blast
  show ?thesis
    unfolding analyze_pair_def Let_def s py_bind_simps
    by (cases "0 < min 20 (length ?rows)") (simp_all only: if_True if_False py_bind_simps, blast+)
qed

text \<open>
  Claim C3. For two data frames whose keys are unique within each frame (and a hash
  that is 0 on no area name, so that the sampling does not raise), \<open>analyze_pair\<close>
  returns as \<open>rust_total\<close> and \<open>python_total\<close> the numbers of records of the two
  frames, as \<open>rust_only\<close> and \<open>python_only\<close> the numbers of keys that only the one or
  only the other frame has, and as \<open>common\<close> the number of keys both have; then
  \<open>rust_only + common = rust_total\<close> and \<open>python_only + common = python_total\<close>, and the
  call with the two frames exchanged returns the same \<open>common\<close>.
\<close>

theorem analyze_pair_counts:
  assumes "distinct (map key df_rs)" and "distinct (map key df_py)"
    and "\<forall>r \<in> set df_rs. hash (Area r) \<noteq> 0" and "\<forall>r \<in> set df_py. hash (Area r) \<noteq> 0"
  shows "\<exists>res sampled res' sampled'.
           analyze_pair hash df_rs df_py lbl = Inr (res, sampled)
         \<and> analyze_pair hash df_py df_rs lbl = Inr (res', sampled')
         \<and> rust_total res = length df_rs \<and> python_total res = length df_py
         \<and> rust_only res = card (set (map key df_rs) - set (map key df_py))
         \<and> python_only res = card (set (map key df_py) - set (map key df_rs))
         \<and> common res = card (set (map key df_rs) \<inter> set (map key df_py))
         \<and> rust_only res + common res = rust_total res
         \<and> python_only res + common res = python_total res
         \<and> common res' = card (set (map key df_py) \<inter> set (map key df_rs))
         \<and> common res' = common res"
proof -
  obtain s where a: "analyze_pair hash df_rs df_py lbl =
           Inr (\<lparr>label = lbl, rust_total = length df_rs, python_total = length df_py,
                 rust_only = card (set (map key df_rs) - set (map key df_py)),
                 python_only = card (set (map key df_py) - set (map key df_rs)),
                 common = card (set (map key df_rs) \<inter> set (map key df_py))\<rparr>, s)"
    using analyze_pair_returns [OF assms(3)] by blast
  obtain s' where b: "analyze_pair hash df_py df_rs lbl =
           Inr (\<lparr>label = lbl, rust_total = length df_py, python_total = length df_rs,
                 rust_only = card (set (map key df_py) - set (map key df_rs)),
                 python_only = card (set (map key df_rs) - set (map key df_py)),
                 common = card (set (map key df_py) \<inter> set (map key df_rs))\<rparr>, s')"
    using analyze_pair_returns [OF assms(4)] by blast
  show ?thesis
    unfolding a b
    using key_counts [OF assms(1), of df_py] key_counts [OF assms(2), of df_rs]
    by (simp add: Int_commute)
qed

theorem analyze_pair_counts_witness:
  "\<exists>res sampled res' sampled'.
     analyze_pair example_hash example_rust example_golden ''main'' = Inr (res, sampled)
   \<and> analyze_pair example_hash example_golden example_rust ''main'' = Inr (res', sampled')
   \<and> rust_total res = length example_rust \<and> python_total res = length example_golden
   \<and> rust_only res = card (set (map key example_rust) - set (map key example_golden))
   \<and> python_only res = card (set (map key example_golden) - set (map key example_rust))
   \<and> common res = card (set (map key example_rust) \<inter> set (map key example_golden))
   \<and> rust_only res + common res = rust_total res
   \<and> python_only res + common res = python_total res
   \<and> common res' = card (set (map key example_golden) \<inter> set (map key example_rust))
   \<and> common res' = common res"
proof -
  have d1: "distinct (map key example_rust)" and d2: "distinct (map key example_golden)"
    by code_simp+
  have h1: "\<forall>r \<in> set example_rust. example_hash (Area r) \<noteq> 0"
    and h2: "\<forall>r \<in> set example_golden. example_hash (Area r) \<noteq> 0"
    by code_simp+
  show ?thesis by (rule analyze_pair_counts [OF d1 d2 h1 h2])
qed

subsection \<open>The sample of analyze\_pair\<close>

text \<open>
  Claim C4. The sample has at most \<open>sample_size\<close> rows (lemma
  \<open>stratified_sample_bound\<close>), but an area can be missing from it. On the example the
  21 rows that only \<open>rust.txt\<close> has span five areas and \<open>sample_size\<close> is 20; the
  four areas with a negative hash take five rows each, and the last \<open>head\<close> cuts the
  only UPSTREAM row off.
\<close>

theorem stratified_sample_misses_category:
  "load_output example_csv ''rust.txt'' = Inr example_rust
   \<and> load_output example_csv ''golden.txt'' = Inr example_golden
   \<and> analyze_pair example_hash example_rust example_golden ''main'' =
       Inr (\<lparr>label = ''main'', rust_total = 22, python_total = 2, rust_only = 21,
             python_only = 1, common = 1\<rparr>,
            Some (take 20 example_rust))
   \<and> group_names (map Area (take 21 example_rust)) =
       [Str ''DOWNSTREAM'', Str ''FIRST_EXON'', Str ''GENE_BODY'', Str ''INTRON'', Str ''UPSTREAM'']
   \<and> Str ''UPSTREAM'' \<notin> set (map Area (take 20 example_rust))"
  by code_simp

end
